theory Spec2Isabelle
  imports Main
begin

section \<open>JavaScript values\<close>

text \<open>
  The program is JavaScript (\<^verbatim>\<open>dist/index.js\<close> and the validator modules). Its values
  are modelled by the datatype below.
  \<^item> Numbers are integers: \<^verbatim>\<open>NaN\<close>, infinities and fractions are not modelled.
  \<^item> An object is given by the names of the constructors on its prototype chain, nearest
    first (a literal \<^verbatim>\<open>{}\<close> has the chain \<open>[''Object'']\<close>), and by its properties as
    property lookup sees them.
  \<^item> A function (or class) is a reference by name; what a call of it does is kept in the
    world, see below.
  \<^item> An object value stands for the object itself: different objects are modelled by
    different values, so that \<^verbatim>\<open>===\<close> is equality of values.
\<close>

datatype jsval =
    JUndefined
  | JNull
  | JBool bool
  | JNum int
  | JStr string
  | JArr "jsval list"
  | JObj "string list" "(string \<times> jsval) list"
  | JFun string

text \<open>The \<^verbatim>\<open>typeof\<close> operator.\<close>

fun typeof :: "jsval \<Rightarrow> string" where
  "typeof JUndefined = ''undefined''"
| "typeof JNull = ''object''"
| "typeof (JBool b) = ''boolean''"
| "typeof (JNum n) = ''number''"
| "typeof (JStr s) = ''string''"
| "typeof (JArr xs) = ''object''"
| "typeof (JObj c ps) = ''object''"
| "typeof (JFun f) = ''function''"

text \<open>Truthiness, as tested by \<^verbatim>\<open>!x\<close>, \<^verbatim>\<open>x || y\<close> and \<^verbatim>\<open>if (x)\<close>.\<close>

fun truthy :: "jsval \<Rightarrow> bool" where
  "truthy JUndefined = False"
| "truthy JNull = False"
| "truthy (JBool b) = b"
| "truthy (JNum n) = (n \<noteq> 0)"
| "truthy (JStr s) = (s \<noteq> [])"
| "truthy (JArr xs) = True"
| "truthy (JObj c ps) = True"
| "truthy (JFun f) = True"

text \<open>\<^verbatim>\<open>a === b\<close>.\<close>

definition strict_eq :: "jsval \<Rightarrow> jsval \<Rightarrow> bool" where
  "strict_eq a b = (a = b)"

definition empty_object :: jsval where
  "empty_object = JObj [''Object''] []"

text \<open>\<^verbatim>\<open>x || {}\<close>.\<close>

definition or_empty :: "jsval \<Rightarrow> jsval" where
  "or_empty x = (if truthy x then x else empty_object)"

text \<open>\<^verbatim>\<open>x === undefined ? {} : x\<close>, the compiled form of a default parameter \<^verbatim>\<open>x = {}\<close>.\<close>

definition default_empty :: "jsval \<Rightarrow> jsval" where
  "default_empty x = (if x = JUndefined then empty_object else x)"

text \<open>\<^verbatim>\<open>arguments[i]\<close>: a missing argument reads as \<^verbatim>\<open>undefined\<close>.\<close>

definition arg :: "jsval list \<Rightarrow> nat \<Rightarrow> jsval" where
  "arg args i = (if i < length args then args ! i else JUndefined)"

subsection \<open>Errors as values\<close>

text \<open>
  A computation either throws a value (\<open>Inl\<close>) or returns one (\<open>Inr\<close>). For an
  asynchronous function, throwing is the rejection of its promise and returning is its
  resolution: every call in the program is awaited.
\<close>

definition Error_new :: "string \<Rightarrow> jsval" where
  "Error_new msg =
     JObj [''Error'', ''Object''] [(''name'', JStr ''Error''), (''message'', JStr msg)]"

text \<open>The engine's own \<^verbatim>\<open>TypeError\<close>s; the text of their messages is the engine's.\<close>

definition TypeError_new :: "string \<Rightarrow> jsval" where
  "TypeError_new msg =
     JObj [''TypeError'', ''Error'', ''Object'']
       [(''name'', JStr ''TypeError''), (''message'', JStr msg)]"

text \<open>
  Property read \<^verbatim>\<open>v.k\<close>, for the property names this program reads (none of them is an
  index or a method of a built-in prototype): it throws on \<^verbatim>\<open>undefined\<close> and
  \<^verbatim>\<open>null\<close>, and a property that is not there reads as \<^verbatim>\<open>undefined\<close>.
\<close>

fun get_prop :: "jsval \<Rightarrow> string \<Rightarrow> jsval + jsval" where
  "get_prop JUndefined k = Inl (TypeError_new (''Cannot read property '' @ k @ '' of undefined''))"
| "get_prop JNull k = Inl (TypeError_new (''Cannot read property '' @ k @ '' of null''))"
| "get_prop (JObj c ps) k = Inr (case map_of ps k of Some v \<Rightarrow> v | None \<Rightarrow> JUndefined)"
| "get_prop (JFun f) k = Inr (if k = ''name'' then JStr f else JUndefined)"
| "get_prop (JArr xs) k = Inr (if k = ''length'' then JNum (int (length xs)) else JUndefined)"
| "get_prop (JStr s) k = Inr (if k = ''length'' then JNum (int (length s)) else JUndefined)"
| "get_prop v k = Inr JUndefined"

text \<open>Property write \<^verbatim>\<open>this.k = v\<close> on an object.\<close>

fun set_prop :: "jsval \<Rightarrow> string \<Rightarrow> jsval \<Rightarrow> jsval" where
  "set_prop (JObj c ps) k v = JObj c ((k, v) # filter (\<lambda>p. fst p \<noteq> k) ps)"
| "set_prop x k v = x"

text \<open>The constructors on the prototype chain of a value; a primitive has none.\<close>

fun proto_chain :: "jsval \<Rightarrow> string list" where
  "proto_chain (JObj c ps) = c"
| "proto_chain (JArr xs) = [''Array'', ''Object'']"
| "proto_chain (JFun f) = [''Function'', ''Object'']"
| "proto_chain v = []"

text \<open>
  \<^verbatim>\<open>v instanceof c\<close>: when \<open>c\<close> is a constructor function, the search of its prototype
  on the chain of \<open>v\<close>; when \<open>c\<close> is not callable (an object, \<^verbatim>\<open>null\<close>, a primitive),
  a \<^verbatim>\<open>TypeError\<close>. Objects that define their own \<^verbatim>\<open>Symbol.hasInstance\<close> are not
  modelled.
\<close>

fun instanceof :: "jsval \<Rightarrow> jsval \<Rightarrow> jsval + bool" where
  "instanceof v (JFun c) = Inr (c \<in> set (proto_chain v))"
| "instanceof v c = Inl (TypeError_new ''Right-hand side of instanceof is not callable'')"

subsection \<open>The world of the callers' functions\<close>

text \<open>
  Validators and handler blocks are functions of the caller. A call may read and change
  state outside the engine (the run context, a database); \<open>'s\<close> is that state. \<open>funs W f\<close>
  is the awaited outcome of calling the function named \<open>f\<close>. \<open>dottie_get\<close> is the
  \<^verbatim>\<open>get(object, path, default)\<close> of the package \<^verbatim>\<open>dottie\<close>, which is not part of this
  repository.
\<close>

record 's world =
  funs :: "string \<Rightarrow> jsval list \<Rightarrow> 's \<Rightarrow> (jsval + jsval) \<times> 's"
  dottie_get :: "jsval \<Rightarrow> string \<Rightarrow> jsval \<Rightarrow> jsval"

text \<open>\<^verbatim>\<open>yield f(args)\<close>; calling what is not a function throws.\<close>

fun call :: "'s world \<Rightarrow> jsval \<Rightarrow> jsval list \<Rightarrow> 's \<Rightarrow> (jsval + jsval) \<times> 's" where
  "call W (JFun f) args s = funs W f args s"
| "call W v args s = (Inl (TypeError_new ''not a function''), s)"

section \<open>ValidationError\<close>

text \<open>
  The base class comes from the package \<^verbatim>\<open>es6-error\<close>: its constructor stores the
  message and the name of the class under construction.
\<close>

definition ExtendableError_init :: "string \<Rightarrow> jsval \<Rightarrow> jsval" where
  "ExtendableError_init cls message =
     JObj [cls, ''ExtendableError'', ''Error'', ''Object'']
       [(''message'', message), (''name'', JStr cls)]"

definition ValidationError_new :: "jsval \<Rightarrow> jsval \<Rightarrow> jsval" where
  "ValidationError_new errors msg =
     (let message = (if msg = JUndefined then JStr ''Validation failed'' else msg);
          this = ExtendableError_init ''ValidationError'' message;
          this = set_prop this ''name'' (JStr ''ValidationError'');
          this = set_prop this ''code'' (JNum 422);
          this = set_prop this ''errors'' errors
      in this)"

text \<open>\<^verbatim>\<open>err instanceof ValidationError\<close>.\<close>

definition is_ValidationError :: "jsval \<Rightarrow> bool" where
  "is_ValidationError err = (instanceof err (JFun ''ValidationError'') = Inr True)"

section \<open>The validation engine\<close>

record validation =
  path :: string
  validator :: string
  options :: jsval
  message :: jsval

text \<open>
  \<open>validators A name\<close> is the value of \<^verbatim>\<open>this.validators[name]\<close>, \<^verbatim>\<open>undefined\<close>
  when the lookup finds nothing.
\<close>

record approval =
  validators :: "string \<Rightarrow> jsval"

text \<open>The object \<^verbatim>\<open>{ path, message }\<close>.\<close>

definition field_error :: "jsval \<Rightarrow> jsval \<Rightarrow> jsval" where
  "field_error p m = JObj [''Object''] [(''path'', p), (''message'', m)]"

definition showValidationError :: "jsval list \<Rightarrow> jsval \<Rightarrow> jsval + jsval" where
  "showValidationError errors opts =
     (if length errors > 0 then Inl (ValidationError_new (JArr errors) JUndefined)
      else Inr JUndefined)"

text \<open>
  The call of line 98-99: the value at the rule's path, the rule's options and the run
  options go to the validator, and the result is awaited.
\<close>

definition invoke_validator ::
  "'s world \<Rightarrow> approval \<Rightarrow> jsval \<Rightarrow> jsval \<Rightarrow> validation \<Rightarrow> 's \<Rightarrow> (jsval + jsval) \<times> 's" where
  "invoke_validator W A input opts v s =
     (let val = dottie_get W input (path v) JNull
      in call W (validators A (validator v)) [val, or_empty (options v), or_empty opts] s)"

text \<open>The loop of \<^verbatim>\<open>validateInput\<close>, with the list \<^verbatim>\<open>errors\<close> as accumulator.\<close>

fun validate_loop ::
  "'s world \<Rightarrow> approval \<Rightarrow> jsval \<Rightarrow> jsval \<Rightarrow> validation list \<Rightarrow> jsval list \<Rightarrow> 's
     \<Rightarrow> (jsval + jsval list) \<times> 's" where
  "validate_loop W A input opts [] errors s = (Inr errors, s)"
| "validate_loop W A input opts (v # rest) errors s =
     (if \<not> truthy (validators A (validator v))
      then (Inl (Error_new (''Unknown validator '' @ validator v)), s)
      else
        (case invoke_validator W A input opts v s of
           (Inl e, s') \<Rightarrow> (Inl e, s')
         | (Inr isValid, s') \<Rightarrow>
             validate_loop W A input opts rest
               (if \<not> truthy isValid then errors @ [field_error (JStr (path v)) (message v)]
                else errors) s'))"

definition validateInput ::
  "'s world \<Rightarrow> approval \<Rightarrow> jsval \<Rightarrow> validation list \<Rightarrow> jsval \<Rightarrow> 's \<Rightarrow> (jsval + jsval) \<times> 's" where
  "validateInput W A input validations opts0 s =
     (let opts = default_empty opts0
      in case validate_loop W A input opts validations [] s of
           (Inl e, s') \<Rightarrow> (Inl e, s')
         | (Inr errors, s') \<Rightarrow> (showValidationError errors opts, s'))"

section \<open>The handler engine\<close>

record handler =
  h_path :: jsval
  h_error :: jsval
  h_options :: jsval
  h_message :: jsval

text \<open>
  The first test of the loop body (``name''):
  \<^verbatim>\<open>handlerCandidate.error === err.name || typeof handlerCandidate.error === 'object' && err instanceof handlerCandidate.error\<close>.
\<close>

definition name_check :: "jsval \<Rightarrow> handler \<Rightarrow> jsval + bool" where
  "name_check err h =
     (case get_prop err ''name'' of
        Inl e \<Rightarrow> Inl e
      | Inr name \<Rightarrow>
          if strict_eq (h_error h) name then Inr True
          else if typeof (h_error h) = ''object'' then instanceof err (h_error h)
          else Inr False)"

text \<open>
  The second test (``code''):
  \<^verbatim>\<open>typeof handlerOptions.code === 'undefined' || typeof handlerOptions.code !== 'undefined' && handlerOptions.code === err.code\<close>.
\<close>

definition code_check :: "jsval \<Rightarrow> jsval \<Rightarrow> jsval + bool" where
  "code_check err handlerOptions =
     (case get_prop handlerOptions ''code'' of
        Inl e \<Rightarrow> Inl e
      | Inr c \<Rightarrow>
          if typeof c = ''undefined'' then Inr True
          else (case get_prop err ''code'' of
                  Inl e \<Rightarrow> Inl e
                | Inr ec \<Rightarrow> Inr (strict_eq c ec)))"

text \<open>
  The third test (``block''):
  \<^verbatim>\<open>typeof handlerOptions.block === 'undefined' || typeof handlerOptions.block !== 'undefined' && (yield handlerOptions.block(err, options))\<close>.
\<close>

definition block_check ::
  "'s world \<Rightarrow> jsval \<Rightarrow> jsval \<Rightarrow> jsval \<Rightarrow> 's \<Rightarrow> (jsval + bool) \<times> 's" where
  "block_check W err opts handlerOptions s =
     (case get_prop handlerOptions ''block'' of
        Inl e \<Rightarrow> (Inl e, s)
      | Inr block \<Rightarrow>
          if typeof block = ''undefined'' then (Inr True, s)
          else (case call W block [err, opts] s of
                  (Inl e, s') \<Rightarrow> (Inl e, s')
                | (Inr b, s') \<Rightarrow> (Inr (truthy b), s')))"

text \<open>
  The body of the loop for one candidate: \<open>Inr False\<close> where the source says
  \<^verbatim>\<open>continue\<close>, \<open>Inr True\<close> where it reaches \<^verbatim>\<open>handler = handlerCandidate; break\<close>.
\<close>

definition handler_matches ::
  "'s world \<Rightarrow> jsval \<Rightarrow> jsval \<Rightarrow> handler \<Rightarrow> 's \<Rightarrow> (jsval + bool) \<times> 's" where
  "handler_matches W err opts h s =
     (let handlerOptions = or_empty (h_options h)
      in case name_check err h of
           Inl e \<Rightarrow> (Inl e, s)
         | Inr False \<Rightarrow> (Inr False, s)
         | Inr True \<Rightarrow>
             (case code_check err handlerOptions of
                Inl e \<Rightarrow> (Inl e, s)
              | Inr False \<Rightarrow> (Inr False, s)
              | Inr True \<Rightarrow> block_check W err opts handlerOptions s))"

text \<open>The loop of \<^verbatim>\<open>handleError\<close>: the value of \<^verbatim>\<open>handler\<close> after it.\<close>

fun handle_loop ::
  "'s world \<Rightarrow> jsval \<Rightarrow> jsval \<Rightarrow> handler list \<Rightarrow> 's \<Rightarrow> (jsval + handler option) \<times> 's" where
  "handle_loop W err opts [] s = (Inr None, s)"
| "handle_loop W err opts (h # rest) s =
     (case handler_matches W err opts h s of
        (Inl e, s') \<Rightarrow> (Inl e, s')
      | (Inr True, s') \<Rightarrow> (Inr (Some h), s')
      | (Inr False, s') \<Rightarrow> handle_loop W err opts rest s')"

text \<open>
  \<^verbatim>\<open>handleError(err, handlers, options)\<close>. The argument \<open>handlers\<close> is \<open>None\<close> when the
  caller leaves it out: \<^verbatim>\<open>for (... of undefined)\<close> throws.
\<close>

definition handleError ::
  "'s world \<Rightarrow> jsval \<Rightarrow> handler list option \<Rightarrow> jsval \<Rightarrow> 's \<Rightarrow> (jsval + jsval) \<times> 's" where
  "handleError W err handlers opts0 s =
     (let opts = default_empty opts0
      in if is_ValidationError err then (get_prop err ''errors'', s)
         else
           (case handlers of
              None \<Rightarrow> (Inl (TypeError_new ''undefined is not iterable''), s)
            | Some hs \<Rightarrow>
                (case handle_loop W err opts hs s of
                   (Inl e, s') \<Rightarrow> (Inl e, s')
                 | (Inr (Some h), s') \<Rightarrow> (Inr (JArr [field_error (h_path h) (h_message h)]), s')
                 | (Inr None, s') \<Rightarrow> (Inr JNull, s'))))"

section \<open>Built-in validators\<close>

text \<open>
  \<^verbatim>\<open>validators/isValid\<close>: the rule's options carry the predicate \<^verbatim>\<open>block\<close>, which is
  called with the value and the run options.
\<close>

definition isValid :: "'s world \<Rightarrow> jsval list \<Rightarrow> 's \<Rightarrow> (jsval + jsval) \<times> 's" where
  "isValid W args s =
     (let val = arg args 0; ref = arg args 1
      in case get_prop ref ''block'' of
           Inl e \<Rightarrow> (Inl e, s)
         | Inr block \<Rightarrow>
             (let opts = default_empty (arg args 2)
              in call W block [val, opts] s))"




section \<open>Notions used in the statements\<close>

text \<open>
  The outcomes of the rules' predicates when they are invoked one after the other, in the
  order of the list, each in the state the one before has left; and the final state.
\<close>

fun run_predicates ::
  "'s world \<Rightarrow> approval \<Rightarrow> jsval \<Rightarrow> jsval \<Rightarrow> validation list \<Rightarrow> 's
     \<Rightarrow> (jsval + jsval) list \<times> 's" where
  "run_predicates W A input opts [] s = ([], s)"
| "run_predicates W A input opts (v # vs) s =
     (case invoke_validator W A input opts v s of
        (r, s') \<Rightarrow>
          (case run_predicates W A input opts vs s' of
             (rs, s'') \<Rightarrow> (r # rs, s'')))"

text \<open>A predicate's outcome passes when it is a returned value that is truthy.\<close>

fun passes :: "jsval + jsval \<Rightarrow> bool" where
  "passes (Inr b) = truthy b"
| "passes (Inl e) = False"

text \<open>A predicate's outcome is a return when it is not a thrown value.\<close>

fun returned :: "jsval + 'a \<Rightarrow> bool" where
  "returned (Inr b) = True"
| "returned (Inl e) = False"

text \<open>
  The entries of the rules whose outcome does not pass, in order: for each such rule the
  object with the two properties \<^verbatim>\<open>path\<close>, the rule's path, and \<^verbatim>\<open>message\<close>, the
  rule's message.
\<close>

fun failed_entries :: "validation list \<Rightarrow> (jsval + jsval) list \<Rightarrow> jsval list" where
  "failed_entries (v # vs) (r # rs) =
     (if passes r then failed_entries vs rs
      else JObj [''Object''] [(''path'', JStr (path v)), (''message'', message v)]
             # failed_entries vs rs)"
| "failed_entries vs rs = []"

text \<open>
  The outcomes of matching the handler rules against an error one after the other, in the
  order of the list, each in the state the one before has left; and the final state.
\<close>

fun scan_results ::
  "'s world \<Rightarrow> jsval \<Rightarrow> jsval \<Rightarrow> handler list \<Rightarrow> 's \<Rightarrow> (jsval + bool) list \<times> 's" where
  "scan_results W err opts [] s = ([], s)"
| "scan_results W err opts (h # hs) s =
     (case handler_matches W err opts h s of
        (r, s') \<Rightarrow>
          (case scan_results W err opts hs s' of
             (rs, s'') \<Rightarrow> (r # rs, s'')))"

subsection \<open>A small world for examples\<close>

text \<open>
  The state counts the calls made. \<open>present\<close> holds of a value that is neither
  \<^verbatim>\<open>undefined\<close>, \<^verbatim>\<open>null\<close> nor the empty string; \<open>always\<close> and \<open>never\<close> are constant;
  \<open>broken\<close> throws. The accessor reads one level of an object.
\<close>

definition example_funs :: "string \<Rightarrow> jsval list \<Rightarrow> nat \<Rightarrow> (jsval + jsval) \<times> nat" where
  "example_funs f args n =
     (if f = ''present''
      then (Inr (JBool (arg args 0 \<noteq> JUndefined \<and> arg args 0 \<noteq> JNull \<and> arg args 0 \<noteq> JStr [])),
            Suc n)
      else if f = ''always'' then (Inr (JBool True), Suc n)
      else if f = ''never'' then (Inr (JBool False), Suc n)
      else if f = ''broken'' then (Inl (JStr ''boom''), Suc n)
      else (Inr JUndefined, Suc n))"

definition example_get :: "jsval \<Rightarrow> string \<Rightarrow> jsval \<Rightarrow> jsval" where
  "example_get obj p d =
     (case obj of
        JObj c ps \<Rightarrow> (case map_of ps p of Some v \<Rightarrow> if v = JUndefined then d else v | None \<Rightarrow> d)
      | _ \<Rightarrow> d)"

definition example_world :: "nat world" where
  "example_world = \<lparr>funs = example_funs, dottie_get = example_get\<rparr>"

definition example_approval :: approval where
  "example_approval =
     \<lparr>validators = (\<lambda>n. if n \<in> set [''present'', ''always'', ''never'', ''broken'']
                          then JFun n else JUndefined)\<rparr>"

definition example_input :: jsval where
  "example_input = JObj [''Object''] [(''name'', JStr ''John'')]"

definition example_rules :: "validation list" where
  "example_rules =
     [\<lparr>path = ''name'', validator = ''present'', options = JUndefined,
        message = JStr ''must be present''\<rparr>,
      \<lparr>path = ''email'', validator = ''present'', options = JUndefined,
        message = JStr ''must be present''\<rparr>,
      \<lparr>path = ''name'', validator = ''never'', options = JUndefined,
        message = JStr ''never right''\<rparr>]"

definition example_error :: jsval where
  "example_error = Error_new ''something went wrong''"

definition rule_type :: handler where
  "rule_type = \<lparr>h_path = JStr ''type'', h_error = JStr ''TypeError'', h_options = JUndefined,
                 h_message = JStr ''wrong type''\<rparr>"

definition rule_system :: handler where
  "rule_system = \<lparr>h_path = JStr ''system'', h_error = JStr ''Error'',
                   h_options = JObj [''Object''] [(''block'', JFun ''always'')],
                   h_message = JStr ''fake error''\<rparr>"

definition rule_other :: handler where
  "rule_other = \<lparr>h_path = JStr ''other'', h_error = JStr ''Error'', h_options = JUndefined,
                  h_message = JStr ''second''\<rparr>"

definition rule_broken :: handler where
  "rule_broken = \<lparr>h_path = JStr ''last'', h_error = JStr ''Error'',
                   h_options = JObj [''Object''] [(''block'', JFun ''broken'')],
                   h_message = JStr ''third''\<rparr>"

definition rule_code :: handler where
  "rule_code = \<lparr>h_path = JStr ''db'', h_error = JStr ''Error'',
                 h_options = JObj [''Object''] [(''code'', JNum 5)],
                 h_message = JStr ''storage''\<rparr>"

definition rule_never :: handler where
  "rule_never = \<lparr>h_path = JStr ''never'', h_error = JStr ''Error'',
                  h_options = JObj [''Object''] [(''block'', JFun ''never'')],
                  h_message = JStr ''no''\<rparr>"

text \<open>A rule whose \<^verbatim>\<open>error\<close> is the class \<^verbatim>\<open>TypeError\<close> itself, not its name.\<close>

definition rule_class :: handler where
  "rule_class = \<lparr>h_path = JStr ''system'', h_error = JFun ''TypeError'', h_options = JUndefined,
                  h_message = JStr ''type error''\<rparr>"

definition example_failure :: jsval where
  "example_failure =
     ValidationError_new (JArr [field_error (JStr ''name'') (JStr ''must be present'')]) JUndefined"

lemmas example_defs =
  example_world_def example_approval_def example_funs_def example_get_def
  example_input_def example_rules_def
  invoke_validator_def or_empty_def default_empty_def empty_object_def arg_def
  example_error_def rule_type_def rule_system_def rule_other_def rule_broken_def
  rule_code_def rule_never_def rule_class_def example_failure_def
  handler_matches_def name_check_def code_check_def block_check_def strict_eq_def
  Error_new_def TypeError_new_def is_ValidationError_def

section \<open>Properties of the validation engine\<close>

lemma validate_loop_append:
  "validate_loop W A input opts (pre @ rest) errors s =
     (case validate_loop W A input opts pre errors s of
        (Inl e, s') \<Rightarrow> (Inl e, s')
      | (Inr errors', s') \<Rightarrow> validate_loop W A input opts rest errors' s')"
  by (induction pre arbitrary: errors s) (auto split: prod.splits sum.splits)

text \<open>
  When every name resolves and every predicate returns, the loop ends with the entries
  of the rules that did not pass appended to the accumulator.
\<close>

lemma validate_loop_run:
  assumes "\<forall>v\<in>set vs. truthy (validators A (validator v))"
    and "run_predicates W A input opts vs s = (rs, s')"
    and "\<forall>r\<in>set rs. returned r"
  shows "validate_loop W A input opts vs errors s = (Inr (errors @ failed_entries vs rs), s')"
  using assms
proof (induction vs arbitrary: errors s rs s')
  case Nil
  then show ?case by simp
next
  case (Cons v vs)
  obtain r s1 where inv: "invoke_validator W A input opts v s = (r, s1)"
    by (cases "invoke_validator W A input opts v s")
  obtain rs' s2 where run: "run_predicates W A input opts vs s1 = (rs', s2)"
    by (cases "run_predicates W A input opts vs s1")
  from Cons.prems(2) inv run have rs: "rs = r # rs'" and s': "s' = s2"
    by simp_all
  from Cons.prems(3) rs obtain b where r: "r = Inr b"
    by (cases r) simp_all
  from Cons.prems(3) rs have ret: "\<forall>r\<in>set rs'. returned r"
    by simp
  from Cons.prems(1) have res: "truthy (validators A (validator v))"
    and res': "\<forall>v\<in>set vs. truthy (validators A (validator v))"
    by simp_all
  have step: "validate_loop W A input opts vs errs s1 = (Inr (errs @ failed_entries vs rs'), s2)"
    for errs
    using Cons.IH [OF res' run ret] .
  show ?case
    using res inv r rs s' step by (simp add: field_error_def)
qed

lemma length_run_predicates:
  "run_predicates W A input opts vs s = (rs, s') \<Longrightarrow> length rs = length vs"
  by (induction vs arbitrary: s rs) (auto split: prod.splits)


lemma failed_entries_Nil_iff:
  "length vs = length rs \<Longrightarrow> failed_entries vs rs = [] \<longleftrightarrow> (\<forall>r\<in>set rs. passes r)"
  by (induction vs rs rule: failed_entries.induct) simp_all




lemma validate_loop_unknown:
  assumes "\<forall>v\<in>set pre. truthy (validators A (validator v))"
    and "run_predicates W A input opts pre s = (rs, s')"
    and "\<forall>r\<in>set rs. returned r"
    and "\<not> truthy (validators A (validator r))"
  shows "validate_loop W A input opts (pre @ r # rest) errors s =
           (Inl (Error_new (''Unknown validator '' @ validator r)), s')"
  using validate_loop_run [OF assms(1-3), of errors] assms(4)
  by (simp add: validate_loop_append)

lemma Error_new_not_ValidationError: "\<not> is_ValidationError (Error_new m)"
  by (simp add: is_ValidationError_def Error_new_def)

lemma Error_new_errors: "get_prop (Error_new m) ''errors'' = Inr JUndefined"
  by (simp add: Error_new_def)

lemma ValidationError_new_fields:
  "get_prop (ValidationError_new errors msg) ''errors'' = Inr errors"
  "get_prop (ValidationError_new errors msg) ''code'' = Inr (JNum 422)"
  "get_prop (ValidationError_new errors msg) ''name'' = Inr (JStr ''ValidationError'')"
  "is_ValidationError (ValidationError_new errors msg)"
  by (simp_all add: ValidationError_new_def ExtendableError_init_def is_ValidationError_def)

text \<open>
  C6. Take a rule list with a rule \<open>r\<close> whose validator name does not resolve
  (\<^verbatim>\<open>this.validators[name]\<close> is falsy), reached after the rules \<open>pre\<close> before it have been
  evaluated. Then \<^verbatim>\<open>validateInput\<close> throws, at that rule, the plain
  \<^verbatim>\<open>Error('Unknown validator <name>')\<close>: the state is the one the rules before \<open>r\<close> have
  left, the rules \<open>rest\<close> after it play no part, the error is not a \<^verbatim>\<open>ValidationError\<close>,
  and it reaches the caller as it was thrown.
\<close>

theorem unknown_validator_fails_fast:
  assumes "\<forall>v\<in>set pre. truthy (validators A (validator v))"
    and "run_predicates W A input (default_empty opts) pre s = (rs, s')"
    and "\<forall>r\<in>set rs. returned r"
    and "\<not> truthy (validators A (validator r))"
  shows "validateInput W A input (pre @ r # rest) opts s =
           (Inl (Error_new (''Unknown validator '' @ validator r)), s')
         \<and> \<not> is_ValidationError (Error_new (''Unknown validator '' @ validator r))"
  using validate_loop_unknown [OF assms, of rest "[]"]
  by (simp add: validateInput_def Error_new_not_ValidationError)

theorem unknown_validator_fails_fast_witness:
  "validateInput example_world example_approval example_input
     ([\<lparr>path = ''name'', validator = ''present'', options = JUndefined, message = JStr ''p''\<rparr>]
      @ \<lparr>path = ''name'', validator = ''isCool'', options = JUndefined, message = JStr ''m''\<rparr>
      # [\<lparr>path = ''name'', validator = ''broken'', options = JUndefined, message = JStr ''b''\<rparr>])
     JUndefined 0
   = (Inl (Error_new ''Unknown validator isCool''), 1)"
proof -
  let ?pre = "[\<lparr>path = ''name'', validator = ''present'', options = JUndefined,
                 message = JStr ''p''\<rparr>]"
  let ?r = "\<lparr>path = ''name'', validator = ''isCool'', options = JUndefined, message = JStr ''m''\<rparr>"
  have h1: "\<forall>v\<in>set ?pre. truthy (validators example_approval (validator v))"
    by (simp add: example_defs)
  have h2: "run_predicates example_world example_approval example_input
              (default_empty JUndefined) ?pre 0 = ([Inr (JBool True)], 1)"
    by (simp add: example_defs)
  have h3: "\<forall>r\<in>set ([Inr (JBool True)] :: (jsval + jsval) list). returned r"
    by simp
  have h4: "\<not> truthy (validators example_approval (validator ?r))"
    by (simp add: example_defs)
  show ?thesis
    using unknown_validator_fails_fast [OF h1 h2 h3 h4] by simp
qed

text \<open>
  C9. When rules before \<open>r\<close> have failed (their predicates returned a value that does not
  pass) and the validator name of \<open>r\<close> does not resolve, the entries gathered so far are
  dropped: \<^verbatim>\<open>validateInput\<close> throws the plain unknown-validator error, which has no
  \<^verbatim>\<open>errors\<close> property and is not a \<^verbatim>\<open>ValidationError\<close>, although the list of failed
  entries is not empty.
\<close>

theorem unknown_validator_discards_failures:
  assumes "\<forall>v\<in>set pre. truthy (validators A (validator v))"
    and "run_predicates W A input (default_empty opts) pre s = (rs, s')"
    and "\<forall>r\<in>set rs. returned r"
    and "\<exists>r\<in>set rs. \<not> passes r"
    and "\<not> truthy (validators A (validator r))"
  shows "\<exists>e. validateInput W A input (pre @ r # rest) opts s = (Inl e, s')
           \<and> e = Error_new (''Unknown validator '' @ validator r)
           \<and> get_prop e ''errors'' = Inr JUndefined
           \<and> \<not> is_ValidationError e
           \<and> failed_entries pre rs \<noteq> []"
proof -
  have len: "length pre = length rs"
    using length_run_predicates [OF assms(2)] by simp
  have "failed_entries pre rs \<noteq> []"
    using failed_entries_Nil_iff [OF len] assms(4) by simp
  then show ?thesis
    using validate_loop_unknown [OF assms(1-3) assms(5), of rest "[]"]
    by (simp add: validateInput_def Error_new_not_ValidationError Error_new_errors)
qed

theorem unknown_validator_discards_failures_witness:
  "failed_entries example_rules [Inr (JBool True), Inr (JBool False), Inr (JBool False)]
     = [field_error (JStr ''email'') (JStr ''must be present''),
        field_error (JStr ''name'') (JStr ''never right'')]
   \<and> validateInput example_world example_approval example_input
        (example_rules
         @ \<lparr>path = ''age'', validator = ''isAdult'', options = JUndefined, message = JStr ''m''\<rparr>
         # [])
        JUndefined 0
      = (Inl (Error_new ''Unknown validator isAdult''), 3)
   \<and> get_prop (Error_new ''Unknown validator isAdult'') ''errors'' = Inr JUndefined"
proof -
  let ?rs = "[Inr (JBool True), Inr (JBool False), Inr (JBool False)] :: (jsval + jsval) list"
  let ?r = "\<lparr>path = ''age'', validator = ''isAdult'', options = JUndefined, message = JStr ''m''\<rparr>"
  have h1: "\<forall>v\<in>set example_rules. truthy (validators example_approval (validator v))"
    by (simp add: example_defs)
  have h2: "run_predicates example_world example_approval example_input
              (default_empty JUndefined) example_rules 0 = (?rs, 3)"
    by (simp add: example_defs)
  have h3: "\<forall>r\<in>set ?rs. returned r"
    by simp
  have h4: "\<exists>r\<in>set ?rs. \<not> passes r"
    by simp
  have h5: "\<not> truthy (validators example_approval (validator ?r))"
    by (simp add: example_defs)
  have "failed_entries example_rules ?rs
          = [field_error (JStr ''email'') (JStr ''must be present''),
             field_error (JStr ''name'') (JStr ''never right'')]"
    by (simp add: example_rules_def field_error_def)
  then show ?thesis
    using unknown_validator_discards_failures [OF h1 h2 h3 h4 h5, of "[]"] by auto
qed

text \<open>
  C7. When every name resolves and every predicate returns, any value that
  \<^verbatim>\<open>validateInput\<close> throws is the validation failure: it is the \<^verbatim>\<open>ValidationError\<close>
  constructed from the list of failed entries, which is not empty; its \<^verbatim>\<open>errors\<close> is
  that ordered list of \<^verbatim>\<open>{path, message}\<close> entries, its \<^verbatim>\<open>code\<close> is 422 and its
  \<^verbatim>\<open>name\<close> is \<^verbatim>\<open>'ValidationError'\<close>, the fields the constructor sets.
\<close>

theorem validation_failure_fields:
  assumes "\<forall>v\<in>set vs. truthy (validators A (validator v))"
    and "run_predicates W A input (default_empty opts) vs s = (rs, s')"
    and "\<forall>r\<in>set rs. returned r"
    and "validateInput W A input vs opts s = (Inl e, s'')"
  shows "e = ValidationError_new (JArr (failed_entries vs rs)) JUndefined
         \<and> get_prop e ''errors'' = Inr (JArr (failed_entries vs rs))
         \<and> failed_entries vs rs \<noteq> []
         \<and> get_prop e ''code'' = Inr (JNum 422)
         \<and> get_prop e ''name'' = Inr (JStr ''ValidationError'')
         \<and> is_ValidationError e"
proof -
  have loop:
    "validate_loop W A input (default_empty opts) vs [] s = (Inr (failed_entries vs rs), s')"
    using validate_loop_run [OF assms(1-3), of "[]"] by simp
  with assms(4) have ne: "failed_entries vs rs \<noteq> []"
    and e: "e = ValidationError_new (JArr (failed_entries vs rs)) JUndefined"
    by (auto simp: validateInput_def showValidationError_def split: if_splits)
  show ?thesis
    using ne e by (simp add: ValidationError_new_fields)
qed

theorem validation_failure_fields_witness:
  "validateInput example_world example_approval example_input example_rules JUndefined 0
     = (Inl (ValidationError_new
               (JArr [field_error (JStr ''email'') (JStr ''must be present''),
                      field_error (JStr ''name'') (JStr ''never right'')]) JUndefined), 3)
   \<and> get_prop (ValidationError_new
                 (JArr [field_error (JStr ''email'') (JStr ''must be present''),
                        field_error (JStr ''name'') (JStr ''never right'')]) JUndefined) ''code''
       = Inr (JNum 422)
   \<and> get_prop (ValidationError_new
                 (JArr [field_error (JStr ''email'') (JStr ''must be present''),
                        field_error (JStr ''name'') (JStr ''never right'')]) JUndefined) ''name''
       = Inr (JStr ''ValidationError'')"
proof -
  let ?rs = "[Inr (JBool True), Inr (JBool False), Inr (JBool False)] :: (jsval + jsval) list"
  let ?e = "ValidationError_new
               (JArr [field_error (JStr ''email'') (JStr ''must be present''),
                      field_error (JStr ''name'') (JStr ''never right'')]) JUndefined"
  have h1: "\<forall>v\<in>set example_rules. truthy (validators example_approval (validator v))"
    by (simp add: example_defs)
  have h2: "run_predicates example_world example_approval example_input
              (default_empty JUndefined) example_rules 0 = (?rs, 3)"
    by (simp add: example_defs)
  have h3: "\<forall>r\<in>set ?rs. returned r"
    by simp
  have h4: "validateInput example_world example_approval example_input example_rules
              JUndefined 0 = (Inl ?e, 3)"
    by (simp add: validateInput_def showValidationError_def example_defs)
  have "get_prop ?e ''code'' = Inr (JNum 422)
        \<and> get_prop ?e ''name'' = Inr (JStr ''ValidationError'')"
    using validation_failure_fields [OF h1 h2 h3 h4] by blast
  with h4 show ?thesis
    by blast
qed

section \<open>Properties of the handler engine\<close>

lemma handle_loop_append:
  "handle_loop W err opts (pre @ rest) s =
     (case handle_loop W err opts pre s of
        (Inl e, s') \<Rightarrow> (Inl e, s')
      | (Inr (Some h), s') \<Rightarrow> (Inr (Some h), s')
      | (Inr None, s') \<Rightarrow> handle_loop W err opts rest s')"
  by (induction pre arbitrary: s) (auto split: prod.splits sum.splits bool.splits)

text \<open>When every rule is found not to match, the loop ends with no handler.\<close>

lemma handle_loop_no_match:
  assumes "scan_results W err opts hs s = (rs, s')"
    and "\<forall>r\<in>set rs. r = Inr False"
  shows "handle_loop W err opts hs s = (Inr None, s')"
  using assms
proof (induction hs arbitrary: s rs s')
  case Nil
  then show ?case by simp
next
  case (Cons h hs)
  obtain r s1 where m: "handler_matches W err opts h s = (r, s1)"
    by (cases "handler_matches W err opts h s")
  obtain rs' s2 where sc: "scan_results W err opts hs s1 = (rs', s2)"
    by (cases "scan_results W err opts hs s1")
  from Cons.prems(1) m sc have rs: "rs = r # rs'" and s': "s' = s2"
    by simp_all
  from Cons.prems(2) rs have r: "r = Inr False" and rest: "\<forall>r\<in>set rs'. r = Inr False"
    by simp_all
  show ?case
    using m r s' Cons.IH [OF sc rest] by simp
qed

lemma handle_loop_result:
  "handle_loop W err opts hs s = (Inr (Some h), s') \<Longrightarrow> h \<in> set hs"
  by (induction hs arbitrary: s) (auto split: prod.splits sum.splits bool.splits)

text \<open>
  The first test holds only through the comparison with \<^verbatim>\<open>err.name\<close>: where
  \<^verbatim>\<open>typeof handlerCandidate.error === 'object'\<close> the right-hand side of \<^verbatim>\<open>instanceof\<close> is
  not callable, and a class has the type \<^verbatim>\<open>'function'\<close>.
\<close>

lemma name_check_True:
  "name_check err h = Inr True \<longleftrightarrow> get_prop err ''name'' = Inr (h_error h)"
proof (cases "get_prop err ''name''")
  case (Inl e)
  then show ?thesis by (simp add: name_check_def)
next
  case (Inr name)
  have "instanceof err (h_error h) \<noteq> Inr True" if "typeof (h_error h) = ''object''"
    using that by (cases "h_error h") simp_all
  then show ?thesis
    using Inr by (auto simp: name_check_def strict_eq_def)
qed

text \<open>
  C2. The claim lets a rule match when its \<^verbatim>\<open>error\<close> is a class and the error is an
  instance of it. The code does not: for the error \<^verbatim>\<open>new TypeError('x')\<close>, which is an
  instance of \<^verbatim>\<open>TypeError\<close>, and the single rule
  \<^verbatim>\<open>{path: 'system', error: TypeError, message: 'type error'}\<close>, the first test fails and
  \<^verbatim>\<open>handleError\<close> returns \<^verbatim>\<open>null\<close>.
\<close>

theorem class_reference_does_not_match:
  "instanceof (TypeError_new ''x'') (h_error rule_class) = Inr True
   \<and> name_check (TypeError_new ''x'') rule_class = Inr False
   \<and> handleError example_world (TypeError_new ''x'') (Some [rule_class]) JUndefined 0
       = (Inr JNull, 0)"
  by (simp add: handleError_def example_defs)

text \<open>
  C3, as stated, fails when a rule before the first matching one has a block that throws:
  the engine has no \<^verbatim>\<open>try\<close>, the scan ends with the thrown value, and the matching
  rule is not reached. Here \<open>rule_other\<close> matches the error, in any state, but stands
  behind \<open>rule_broken\<close>.
\<close>

theorem throwing_block_ends_scan:
  "handler_matches example_world example_error (default_empty JUndefined) rule_other 0
     = (Inr True, 0)
   \<and> handler_matches example_world example_error (default_empty JUndefined) rule_other 1
     = (Inr True, 1)
   \<and> handleError example_world example_error (Some [rule_broken, rule_other]) JUndefined 0
     = (Inl (JStr ''boom''), 1)"
  by (simp add: handleError_def example_defs)

text \<open>
  C3, amended. Take an error that is not a \<^verbatim>\<open>ValidationError\<close> and a handler list in
  which the rules \<open>pre\<close> before the first matching rule \<open>h\<close>, tried in order, are each
  tested without a throw and found not to match, and \<open>h\<close> then matches. Then
  \<^verbatim>\<open>handleError\<close> returns the one-element list holding the object with the two
  properties \<^verbatim>\<open>path\<close>, the path of \<open>h\<close>, and \<^verbatim>\<open>message\<close>, the message of \<open>h\<close>;
  and it stops there: the state is the one left by the test of \<open>h\<close>, and the rules
  \<open>rest\<close> after \<open>h\<close> play no part, whether they match or not. So of two rules that both
  match, only the first one's message is returned.
\<close>

theorem first_match_wins:
  assumes "\<not> is_ValidationError err"
    and "scan_results W err (default_empty opts) pre s = (rs, s1)"
    and "\<forall>r\<in>set rs. r = Inr False"
    and "handler_matches W err (default_empty opts) h s1 = (Inr True, s2)"
  shows "handleError W err (Some (pre @ h # rest)) opts s =
           (Inr (JArr [JObj [''Object''] [(''path'', h_path h), (''message'', h_message h)]]),
            s2)"
  using assms(1,4) handle_loop_no_match [OF assms(2,3)]
  by (simp add: handleError_def handle_loop_append field_error_def)

theorem first_match_wins_witness:
  "handler_matches example_world example_error (default_empty JUndefined) rule_system 0
     = (Inr True, 1)
   \<and> handler_matches example_world example_error (default_empty JUndefined) rule_other 1
     = (Inr True, 1)
   \<and> handleError example_world example_error
        (Some ([rule_type] @ rule_system # [rule_other, rule_broken])) JUndefined 0
     = (Inr (JArr [JObj [''Object''] [(''path'', JStr ''system''),
                                      (''message'', JStr ''fake error'')]]), 1)"
proof -
  have h1: "\<not> is_ValidationError example_error"
    by (simp add: example_defs)
  have h2: "scan_results example_world example_error (default_empty JUndefined) [rule_type] 0
              = ([Inr False], 0)"
    by (simp add: example_defs)
  have h3: "\<forall>r\<in>set ([Inr False] :: (jsval + bool) list). r = Inr False"
    by simp
  have h4: "handler_matches example_world example_error (default_empty JUndefined)
              rule_system 0 = (Inr True, 1)"
    by (simp add: example_defs)
  have h5: "handler_matches example_world example_error (default_empty JUndefined)
              rule_other 1 = (Inr True, 1)"
    by (simp add: example_defs)
  have p: "h_path rule_system = JStr ''system''" and m: "h_message rule_system = JStr ''fake error''"
    by (simp_all add: rule_system_def)
  have "handleError example_world example_error
          (Some ([rule_type] @ rule_system # [rule_other, rule_broken])) JUndefined 0
        = (Inr (JArr [JObj [''Object''] [(''path'', JStr ''system''),
                                         (''message'', JStr ''fake error'')]]), 1)"
    using first_match_wins [OF h1 h2 h3 h4, of "[rule_other, rule_broken]"]
    unfolding p m .
  with h4 h5 show ?thesis
    by blast
qed

text \<open>
  C4. For an error that is an instance of \<^verbatim>\<open>ValidationError\<close>, \<^verbatim>\<open>handleError\<close> returns
  the value of the error's own \<^verbatim>\<open>errors\<close> property, whatever the handlers are (also when
  they are left out): no rule is tried and no block is called, so the state is unchanged.
\<close>

theorem validation_error_bypasses_handlers:
  assumes "is_ValidationError err"
  shows "handleError W err handlers opts s = (get_prop err ''errors'', s)
         \<and> returned (get_prop err ''errors'')"
proof -
  from assms obtain c ps where "err = JObj c ps"
    by (cases err) (simp_all add: is_ValidationError_def)
  then show ?thesis
    using assms by (simp add: handleError_def)
qed

theorem validation_error_bypasses_handlers_witness:
  "is_ValidationError example_failure
   \<and> handleError example_world example_failure None JUndefined 0
       = (Inr (JArr [field_error (JStr ''name'') (JStr ''must be present'')]), 0)
   \<and> handleError example_world example_failure (Some [rule_broken]) JUndefined 0
       = (Inr (JArr [field_error (JStr ''name'') (JStr ''must be present'')]), 0)"
proof -
  have h: "is_ValidationError example_failure"
    by (simp add: example_failure_def ValidationError_new_fields)
  have e: "get_prop example_failure ''errors''
             = Inr (JArr [field_error (JStr ''name'') (JStr ''must be present'')])"
    by (simp add: example_failure_def ValidationError_new_fields)
  show ?thesis
    using h e validation_error_bypasses_handlers [OF h, of example_world None JUndefined 0]
      validation_error_bypasses_handlers [OF h, of example_world "Some [rule_broken]" JUndefined 0]
    by simp
qed

text \<open>
  C5, as stated, fails for a \<^verbatim>\<open>ValidationError\<close>: with an empty handler list no rule
  matches, and \<^verbatim>\<open>handleError\<close> returns the error's \<^verbatim>\<open>errors\<close>, not \<^verbatim>\<open>null\<close>; for
  \<^verbatim>\<open>new ValidationError([])\<close> the value returned is the empty list.
\<close>

theorem validation_error_is_never_unhandled:
  "handleError example_world example_failure (Some []) JUndefined 0
     = (Inr (JArr [field_error (JStr ''name'') (JStr ''must be present'')]), 0)
   \<and> handleError example_world example_failure (Some []) JUndefined 0 \<noteq> (Inr JNull, 0)
   \<and> handleError example_world (ValidationError_new (JArr []) JUndefined) (Some []) JUndefined 0
     = (Inr (JArr []), 0)"
  by (simp add: handleError_def example_failure_def ValidationError_new_fields)

text \<open>
  C5, amended. Take an error that is not an instance of \<^verbatim>\<open>ValidationError\<close>. When the
  rules of the handler list, tried in order, are each found not to match, and so for the
  empty list, \<^verbatim>\<open>handleError\<close> returns \<^verbatim>\<open>null\<close> and does not throw. \<^verbatim>\<open>null\<close> is not the
  empty list, and the empty list is never returned for such an error: a returned value is
  \<^verbatim>\<open>null\<close> or the one-element list made from a rule of the list.
\<close>

theorem no_match_returns_null:
  assumes "\<not> is_ValidationError err"
  shows "(scan_results W err (default_empty opts) hs s = (rs, s') \<and> (\<forall>r\<in>set rs. r = Inr False)
            \<longrightarrow> handleError W err (Some hs) opts s = (Inr JNull, s'))
         \<and> handleError W err (Some []) opts s = (Inr JNull, s)
         \<and> (handleError W err (Some hs) opts s = (Inr v, s'')
            \<longrightarrow> v = JNull \<or> (\<exists>h\<in>set hs. v = JArr [field_error (h_path h) (h_message h)]))
         \<and> JNull \<noteq> JArr []"
proof -
  have a: "handleError W err (Some hs) opts s = (Inr JNull, s')"
    if "scan_results W err (default_empty opts) hs s = (rs, s')" "\<forall>r\<in>set rs. r = Inr False"
    using assms handle_loop_no_match [OF that] by (simp add: handleError_def)
  have b: "handleError W err (Some []) opts s = (Inr JNull, s)"
    using assms by (simp add: handleError_def)
  have c: "v = JNull \<or> (\<exists>h\<in>set hs. v = JArr [field_error (h_path h) (h_message h)])"
    if "handleError W err (Some hs) opts s = (Inr v, s'')"
    using that assms
    by (auto simp: handleError_def split: prod.splits sum.splits option.splits
          dest: handle_loop_result)
  show ?thesis
    using a b c by blast
qed

theorem no_match_returns_null_witness:
  "\<not> is_ValidationError example_error
   \<and> scan_results example_world example_error (default_empty JUndefined)
        [rule_type, rule_code, rule_never] 0
      = ([Inr False, Inr False, Inr False], 1)
   \<and> handleError example_world example_error (Some [rule_type, rule_code, rule_never])
        JUndefined 0
      = (Inr JNull, 1)"
proof -
  let ?rs = "[Inr False, Inr False, Inr False] :: (jsval + bool) list"
  have h1: "\<not> is_ValidationError example_error"
    by (simp add: example_defs)
  have h2: "scan_results example_world example_error (default_empty JUndefined)
              [rule_type, rule_code, rule_never] 0 = (?rs, 1)"
    by (simp add: example_defs)
  have h3: "\<forall>r\<in>set ?rs. r = Inr False"
    by simp
  have "handleError example_world example_error (Some [rule_type, rule_code, rule_never])
          JUndefined 0 = (Inr JNull, 1)"
    using no_match_returns_null [OF h1, of example_world JUndefined
        "[rule_type, rule_code, rule_never]" 0 ?rs 1] h2 h3
    by blast
  with h1 h2 show ?thesis
    by blast
qed

section \<open>Properties of the built-in validators\<close>





text \<open>
  C10. \<^verbatim>\<open>isValid\<close> hands the decision to \<^verbatim>\<open>options.block\<close>: when the options carry a
  function \<open>b\<close> as \<^verbatim>\<open>block\<close>, the outcome is that of the awaited call of \<open>b\<close> with the
  value and the run options (\<^verbatim>\<open>{}\<close> when these are left out); when they carry no
  function as \<^verbatim>\<open>block\<close>, or are themselves missing, \<^verbatim>\<open>isValid\<close> throws a
  \<^verbatim>\<open>TypeError\<close>: it does not return \<^verbatim>\<open>false\<close>.
\<close>

theorem isValid_delegates:
  "(get_prop (arg args 1) ''block'' = Inr (JFun b)
      \<longrightarrow> isValid W args s = funs W b [arg args 0, default_empty (arg args 2)] s)
   \<and> ((\<forall>f. get_prop (arg args 1) ''block'' \<noteq> Inr (JFun f))
      \<longrightarrow> (\<exists>e. isValid W args s = (Inl e, s) \<and> get_prop e ''name'' = Inr (JStr ''TypeError'')))"
proof -
  have a: "isValid W args s = funs W b [arg args 0, default_empty (arg args 2)] s"
    if "get_prop (arg args 1) ''block'' = Inr (JFun b)"
    using that by (simp add: isValid_def)
  have b: "\<exists>e. isValid W args s = (Inl e, s) \<and> get_prop e ''name'' = Inr (JStr ''TypeError'')"
    if nf: "\<forall>f. get_prop (arg args 1) ''block'' \<noteq> Inr (JFun f)"
  proof (cases "get_prop (arg args 1) ''block''")
    case (Inl e)
    then have "get_prop e ''name'' = Inr (JStr ''TypeError'')"
      by (cases "arg args 1") (auto simp: TypeError_new_def)
    with Inl show ?thesis
      by (simp add: isValid_def)
  next
    case (Inr block)
    with nf have "\<And>f. block \<noteq> JFun f"
      by simp
    then have "call W block [arg args 0, default_empty (arg args 2)] s
                 = (Inl (TypeError_new ''not a function''), s)"
      by (cases block) auto
    with Inr show ?thesis
      by (simp add: isValid_def TypeError_new_def)
  qed
  show ?thesis
    using a b by blast
qed

theorem isValid_delegates_witness:
  "isValid example_world
     [JStr ''x'', JObj [''Object''] [(''block'', JFun ''never'')], JUndefined] 0
     = (Inr (JBool False), 1)
   \<and> isValid example_world [JStr ''x'', empty_object, empty_object] 0
     = (Inl (TypeError_new ''not a function''), 0)"
proof -
  let ?args = "[JStr ''x'', JObj [''Object''] [(''block'', JFun ''never'')], JUndefined]"
  let ?none = "[JStr ''x'', empty_object, empty_object]"
  have h1: "get_prop (arg ?args 1) ''block'' = Inr (JFun ''never'')"
    by (simp add: arg_def)
  have h2: "\<forall>f. get_prop (arg ?none 1) ''block'' \<noteq> Inr (JFun f)"
    by (simp add: arg_def empty_object_def)
  have "isValid example_world ?args 0
          = funs example_world ''never'' [arg ?args 0, default_empty (arg ?args 2)] 0"
    using isValid_delegates [of ?args "''never''" example_world 0] h1 by blast
  then have a: "isValid example_world ?args 0 = (Inr (JBool False), 1)"
    by (simp add: example_world_def example_funs_def)
  have "\<exists>e. isValid example_world ?none 0 = (Inl e, 0)"
    using isValid_delegates [of ?none _ example_world 0] h2 by blast
  then have b: "isValid example_world ?none 0 = (Inl (TypeError_new ''not a function''), 0)"
    by (auto simp: isValid_def arg_def empty_object_def)
  show ?thesis
    using a b by blast
qed

end
